theory Spec2Isabelle
  imports Complex_Main "HOL-Library.Sublist"
begin

section \<open>The analyze route: values, coercions and the heuristic engine\<close>

text \<open>
  A shallow embedding of the route handler of \<^verbatim>\<open>POST /api/analyze\<close>: the functions
  \<^verbatim>\<open>generateMockAnalysis\<close>, \<^verbatim>\<open>callMLService\<close> and \<^verbatim>\<open>POST\<close>.

  Numbers. A JavaScript number is an IEEE double. Here a number is either \<open>NaN\<close> or an
  exact rational: rounding is idealised away, \<open>NaN\<close> and its propagation are kept. In
  double arithmetic a sum of the listings evaluated below can differ from the rational
  one in the last bit (0.2 + 0.1 is 0.30000000000000004), which changes none of the
  comparisons made there; the one sum that meets a threshold, 0.2 + 0.1 + 0.1, is the
  double 0.4 itself. Infinities are left out: they arise only from a numeric literal
  that overflows, and such a price behaves like any huge finite price in this code.
\<close>

datatype number = Num rat | NaN

fun n_add :: "number \<Rightarrow> number \<Rightarrow> number" where
  "n_add (Num a) (Num b) = Num (a + b)"
| "n_add _ _ = NaN"

fun n_sub :: "number \<Rightarrow> number \<Rightarrow> number" where
  "n_sub (Num a) (Num b) = Num (a - b)"
| "n_sub _ _ = NaN"

fun n_mul :: "number \<Rightarrow> number \<Rightarrow> number" where
  "n_mul (Num a) (Num b) = Num (a * b)"
| "n_mul _ _ = NaN"

text \<open>
  Division is only ever by a median of the category table, which is positive, or by
  \<open>NaN\<close>; a zero divisor (an infinity or \<open>NaN\<close> in JavaScript) is given \<open>NaN\<close> and is
  never reached.
\<close>

fun n_div :: "number \<Rightarrow> number \<Rightarrow> number" where
  "n_div (Num a) (Num b) = (if b = 0 then NaN else Num (a / b))"
| "n_div _ _ = NaN"

fun n_abs :: "number \<Rightarrow> number" where
  "n_abs (Num a) = Num \<bar>a\<bar>"
| "n_abs NaN = NaN"

text \<open>\<^verbatim>\<open>Math.min\<close> is \<open>NaN\<close> as soon as one argument is.\<close>

fun n_min :: "number \<Rightarrow> number \<Rightarrow> number" where
  "n_min (Num a) (Num b) = Num (min a b)"
| "n_min _ _ = NaN"

text \<open>Every comparison with \<open>NaN\<close> is false.\<close>

fun n_lt :: "number \<Rightarrow> number \<Rightarrow> bool" where
  "n_lt (Num a) (Num b) = (a < b)"
| "n_lt _ _ = False"

fun n_gt :: "number \<Rightarrow> number \<Rightarrow> bool" where
  "n_gt (Num a) (Num b) = (a > b)"
| "n_gt _ _ = False"

fun n_ge :: "number \<Rightarrow> number \<Rightarrow> bool" where
  "n_ge (Num a) (Num b) = (a \<ge> b)"
| "n_ge _ _ = False"

subsection \<open>Values parsed from JSON\<close>

text \<open>
  The request body is whatever \<^verbatim>\<open>request.json()\<close> parsed (\<^verbatim>\<open>data: any\<close>). An object
  is the list of its own properties; \<open>map_of\<close> reads a property, so each key counts
  once. A property that is absent reads as \<^verbatim>\<open>undefined\<close>, modelled as \<open>None\<close>.
  JSON holds no \<open>NaN\<close>, so a parsed number is rational.
\<close>

datatype json =
    JNull
  | JBool bool
  | JNum rat
  | JStr string
  | JArr "json list"
  | JObj "(string \<times> json) list"

datatype error = TypeError

text \<open>
  \<^verbatim>\<open>data.k\<close> for the property names this route reads (none of them is a built-in
  property of a string, an array, a number or a boolean, or inherited by an object).
  Reading a property of \<^verbatim>\<open>null\<close> throws; the callers below test for it first.
\<close>

fun property :: "json \<Rightarrow> string \<Rightarrow> json option" where
  "property (JObj kvs) k = map_of kvs k"
| "property _ k = None"

text \<open>Truthiness, as \<^verbatim>\<open>!x\<close>, \<^verbatim>\<open>x || y\<close> and \<^verbatim>\<open>x && y\<close> read it.\<close>

fun truthy :: "json option \<Rightarrow> bool" where
  "truthy None = False"
| "truthy (Some JNull) = False"
| "truthy (Some (JBool b)) = b"
| "truthy (Some (JNum n)) = (n \<noteq> 0)"
| "truthy (Some (JStr s)) = (s \<noteq> [])"
| "truthy (Some (JArr xs)) = True"
| "truthy (Some (JObj kvs)) = True"

text \<open>
  The host. Two conversions of the language are not part of this repository and are
  taken as parameters: the parsing of a string as a number and the printing of a number.
  The clock read by \<^verbatim>\<open>new Date().toISOString()\<close> is the third.
\<close>

record env =
  StringToNumber :: "string \<Rightarrow> number"
  NumberToString :: "rat \<Rightarrow> string"
  now :: string

fun join :: "string list \<Rightarrow> string" where
  "join [] = []"
| "join [s] = s"
| "join (s # t # ss) = s @ '','' @ join (t # ss)"

text \<open>The results of a list of steps, or the first exception among them.\<close>

fun sequence :: "(error + 'a) list \<Rightarrow> error + 'a list" where
  "sequence [] = Inr []"
| "sequence (Inl err # xs) = Inl err"
| "sequence (Inr v # xs) = (case sequence xs of Inl err \<Rightarrow> Inl err | Inr vs \<Rightarrow> Inr (v # vs))"

text \<open>
  \<^verbatim>\<open>ToString\<close>. An array prints as its elements joined by commas, \<^verbatim>\<open>null\<close> elements as
  the empty string. A parsed object holds no function: one with a property \<^verbatim>\<open>toString\<close>
  of its own hides the inherited method and cannot be converted, which throws; any other
  object prints as \<^verbatim>\<open>[object Object]\<close>.
\<close>

fun ToString :: "env \<Rightarrow> json \<Rightarrow> error + string" where
  "ToString e JNull = Inr ''null''"
| "ToString e (JBool b) = Inr (if b then ''true'' else ''false'')"
| "ToString e (JNum n) = Inr (NumberToString e n)"
| "ToString e (JStr s) = Inr s"
| "ToString e (JArr xs) =
     (case sequence (map (\<lambda>x. if x = JNull then Inr [] else ToString e x) xs) of
        Inl err \<Rightarrow> Inl err
      | Inr ss \<Rightarrow> Inr (join ss))"
| "ToString e (JObj kvs) =
     (if ''toString'' \<in> set (map fst kvs) then Inl TypeError else Inr ''[object Object]'')"

text \<open>The key of \<^verbatim>\<open>table[x]\<close>.\<close>

fun ToPropertyKey :: "env \<Rightarrow> json option \<Rightarrow> error + string" where
  "ToPropertyKey e None = Inr ''undefined''"
| "ToPropertyKey e (Some x) = ToString e x"

text \<open>
  \<^verbatim>\<open>ToNumber\<close>, which \<^verbatim>\<open>-\<close>, \<^verbatim>\<open>>=\<close> and \<^verbatim>\<open><\<close> apply to an operand when the other
  one is a number: arrays and objects go through their string.
\<close>

fun ToNumber :: "env \<Rightarrow> json option \<Rightarrow> error + number" where
  "ToNumber e None = Inr NaN"
| "ToNumber e (Some JNull) = Inr (Num 0)"
| "ToNumber e (Some (JBool b)) = Inr (Num (if b then 1 else 0))"
| "ToNumber e (Some (JNum n)) = Inr (Num n)"
| "ToNumber e (Some (JStr s)) = Inr (StringToNumber e s)"
| "ToNumber e (Some (JArr xs)) =
     (case ToString e (JArr xs) of Inl err \<Rightarrow> Inl err | Inr s \<Rightarrow> Inr (StringToNumber e s))"
| "ToNumber e (Some (JObj kvs)) =
     (case ToString e (JObj kvs) of Inl err \<Rightarrow> Inl err | Inr s \<Rightarrow> Inr (StringToNumber e s))"

subsection \<open>Strings\<close>

text \<open>
  A string is a list of characters. \<^verbatim>\<open>toLowerCase\<close> maps the letters A to Z; the
  vocabularies below are ASCII.
\<close>

definition lower_char :: "char \<Rightarrow> char" where
  "lower_char c =
     (case map_of (zip ''ABCDEFGHIJKLMNOPQRSTUVWXYZ'' ''abcdefghijklmnopqrstuvwxyz'') c of
        None \<Rightarrow> c
      | Some d \<Rightarrow> d)"

definition toLowerCase :: "string \<Rightarrow> string" where
  "toLowerCase s = map lower_char s"

text \<open>\<^verbatim>\<open>s.includes(w)\<close>: \<open>w\<close> occurs in \<open>s\<close> as a contiguous substring.\<close>

fun includes_str :: "string \<Rightarrow> string \<Rightarrow> bool" where
  "includes_str [] w = (w = [])"
| "includes_str (c # cs) w = (prefix w (c # cs) \<or> includes_str cs w)"

text \<open>
  \<^verbatim>\<open>(x || "").toLowerCase()\<close>: a falsy \<open>x\<close> gives the empty string, a string is
  lower-cased, and any other truthy value has no such method, which throws.
\<close>

definition lowered :: "json option \<Rightarrow> error + string" where
  "lowered x =
     (if truthy x
      then (case x of Some (JStr s) \<Rightarrow> Inr (toLowerCase s) | _ \<Rightarrow> Inl TypeError)
      else Inr (toLowerCase []))"

subsection \<open>The heuristic engine\<close>

text \<open>
  The local constants of \<^verbatim>\<open>generateMockAnalysis\<close> come first, each under its own name;
  the sum, the label and the explanation are functions of them.
\<close>

definition suspiciousWords :: "string list" where
  "suspiciousWords =
     [''free'', ''wow'', ''amazing'', ''limited'', ''urgent'', ''exclusive'', ''fake'', ''replica'']"

definition genericNames :: "string list" where
  "genericNames = [''seller'', ''shop'', ''store'', ''mall'']"

definition wordMatches :: "string \<Rightarrow> nat" where
  "wordMatches title = length (filter (\<lambda>w. includes_str title w) suspiciousWords)"

definition categoryRanges :: "(string \<times> rat \<times> rat) list" where
  "categoryRanges =
     [(''electronics'', 200, 2000),
      (''clothing'', 10, 200),
      (''jewelry'', 50, 5000),
      (''watches'', 100, 10000),
      (''books'', 5, 50)]"

text \<open>
  \<^verbatim>\<open>categoryRanges\<close> is an object literal, so \<^verbatim>\<open>categoryRanges[key]\<close> also finds what
  every object inherits from \<^verbatim>\<open>Object.prototype\<close>: functions, and for \<^verbatim>\<open>__proto__\<close>
  the prototype itself. Each of them is truthy, so \<^verbatim>\<open>||\<close> keeps it, and its
  properties \<^verbatim>\<open>0\<close> and \<^verbatim>\<open>1\<close> are \<^verbatim>\<open>undefined\<close>.
\<close>

definition Object_prototype :: "string list" where
  "Object_prototype =
     [''constructor'', ''hasOwnProperty'', ''isPrototypeOf'', ''propertyIsEnumerable'',
      ''toLocaleString'', ''toString'', ''valueOf'', ''__proto__'',
      ''__defineGetter__'', ''__defineSetter__'', ''__lookupGetter__'', ''__lookupSetter__'']"

text \<open>
  \<^verbatim>\<open>const range = categoryRanges[data.category] || [1, 10000]\<close>, as the pair
  \<^verbatim>\<open>(range[0], range[1])\<close>; \<open>None\<close> is \<^verbatim>\<open>undefined\<close>.
\<close>

definition range_of :: "string \<Rightarrow> rat option \<times> rat option" where
  "range_of key =
     (case map_of categoryRanges key of
        Some (lo, hi) \<Rightarrow> (Some lo, Some hi)
      | None \<Rightarrow>
          if key \<in> set Object_prototype then (None, None) else (Some 1, Some 10000))"

text \<open>An operand of \<^verbatim>\<open>+\<close> that is a number or \<^verbatim>\<open>undefined\<close>.\<close>

definition operand :: "rat option \<Rightarrow> number" where
  "operand x = (case x of None \<Rightarrow> NaN | Some r \<Rightarrow> Num r)"

definition medianPrice :: "string \<Rightarrow> number" where
  "medianPrice key =
     (let rng = range_of key
      in n_div (n_add (operand (fst rng)) (operand (snd rng))) (Num 2))"

definition priceDeviation :: "env \<Rightarrow> json \<Rightarrow> error + number" where
  "priceDeviation e data =
     (case ToPropertyKey e (property data ''category'') of
        Inl err \<Rightarrow> Inl err
      | Inr key \<Rightarrow>
          (case ToNumber e (property data ''price'') of
             Inl err \<Rightarrow> Inl err
           | Inr price \<Rightarrow>
               Inr (n_div (n_abs (n_sub price (medianPrice key))) (medianPrice key))))"

text \<open>
  \<^verbatim>\<open>data.rating >= 4.9 && data.review_count < 10\<close>; the right operand is only
  evaluated when the left one holds.
\<close>

definition ratingAnomaly :: "env \<Rightarrow> json \<Rightarrow> error + bool" where
  "ratingAnomaly e data =
     (case ToNumber e (property data ''rating'') of
        Inl err \<Rightarrow> Inl err
      | Inr rating \<Rightarrow>
          if n_ge rating (Num 4.9)
          then (case ToNumber e (property data ''review_count'') of
                  Inl err \<Rightarrow> Inl err
                | Inr review_count \<Rightarrow> Inr (n_lt review_count (Num 10)))
          else Inr False)"

text \<open>\<^verbatim>\<open>data.review_count === 0\<close>: strict equality, true of the number zero only.\<close>

definition zeroReviews :: "json \<Rightarrow> bool" where
  "zeroReviews data = (property data ''review_count'' = Some (JNum 0))"

definition genericSeller :: "string \<Rightarrow> bool" where
  "genericSeller seller = list_ex (\<lambda>n. includes_str seller n) genericNames"

definition imageCount :: "json \<Rightarrow> nat" where
  "imageCount data =
     (case property data ''images'' of Some (JArr xs) \<Rightarrow> length xs | _ \<Rightarrow> 0)"

text \<open>
  The running sum \<^verbatim>\<open>suspiciousness\<close>, statement by statement, from the word matches
  \<open>w\<close>, the price deviation \<open>pd\<close>, the rating anomaly \<open>ra\<close>, the zero-review test \<open>zr\<close>,
  the generic-seller test \<open>gs\<close> and the image count \<open>ic\<close>.
\<close>

definition suspiciousness ::
  "nat \<Rightarrow> number \<Rightarrow> bool \<Rightarrow> bool \<Rightarrow> bool \<Rightarrow> nat \<Rightarrow> number" where
  "suspiciousness w pd ra zr gs ic =
     (let s0 = Num 0;
          s1 = n_add s0 (n_mul (Num (of_nat w)) (Num 0.15));
          s2 = n_add s1 (n_min (n_mul pd (Num 0.2)) (Num 0.2));
          s3 = (if ra then n_add s2 (Num 0.15) else s2);
          s4 = (if zr then n_add s3 (Num 0.1) else s3);
          s5 = (if gs then n_add s4 (Num 0.1) else s4);
          s6 = (if ic = 0 then n_add s5 (Num 0.1) else s5)
      in s6)"

datatype label = safe | suspicious | high_risk

record entry =
  feature :: string
  contribution :: number

record AnalysisResult =
  score :: number
  label :: label
  explanation :: "entry list"
  model_version :: string
  timestamp :: string

definition label_of :: "number \<Rightarrow> label" where
  "label_of s =
     (if n_lt s (Num 0.4) then safe
      else if n_lt s (Num 0.7) then suspicious
      else high_risk)"

definition explanation_of :: "nat \<Rightarrow> number \<Rightarrow> bool \<Rightarrow> bool \<Rightarrow> nat \<Rightarrow> entry list" where
  "explanation_of w pd ra gs ic =
     filter (\<lambda>x. n_gt (contribution x) (Num 0))
       [\<lparr>feature = ''price_deviation_from_median'',
         contribution = n_min (n_mul pd (Num 0.2)) (Num 1)\<rparr>,
        \<lparr>feature = ''suspicious_words_in_title'',
         contribution = n_min (n_mul (Num (of_nat w)) (Num 0.15)) (Num 1)\<rparr>,
        \<lparr>feature = ''perfect_rating_low_reviews'',
         contribution = (if ra then Num 0.15 else Num 0)\<rparr>,
        \<lparr>feature = ''no_images'',
         contribution = (if ic = 0 then Num 0.1 else Num 0)\<rparr>,
        \<lparr>feature = ''generic_seller_name'',
         contribution = (if gs then Num 0.1 else Num 0)\<rparr>]"

text \<open>
  The engine. Its exceptions are those of the conversions: a truthy title or seller that
  is not a string, and a category, price, rating or review count that cannot be
  converted. They are all of one kind, so the order in which the conversions are tried
  does not show in the result.
\<close>

definition generateMockAnalysis :: "env \<Rightarrow> json \<Rightarrow> error + AnalysisResult" where
  "generateMockAnalysis e data =
     (if data = JNull then Inl TypeError
      else case lowered (property data ''title'') of
        Inl err \<Rightarrow> Inl err
      | Inr title \<Rightarrow>
      (case priceDeviation e data of
        Inl err \<Rightarrow> Inl err
      | Inr pd \<Rightarrow>
      (case ratingAnomaly e data of
        Inl err \<Rightarrow> Inl err
      | Inr ra \<Rightarrow>
      (case lowered (property data ''seller'') of
        Inl err \<Rightarrow> Inl err
      | Inr seller \<Rightarrow>
          (let w = wordMatches title;
               gs = genericSeller seller;
               ic = imageCount data;
               sc = n_min (suspiciousness w pd ra (zeroReviews data) gs ic) (Num 1)
           in Inr \<lparr>score = sc,
                   label = label_of sc,
                   explanation = explanation_of w pd ra gs ic,
                   model_version = ''v0.1-mock'',
                   timestamp = now e\<rparr>)))))"

subsection \<open>The remote backend and the route\<close>

text \<open>
  What \<^verbatim>\<open>fetch\<close> did. \<open>Rejected\<close>: the promise rejected, on a transport failure or
  because the five-second timer aborted the request. \<open>Responded st b\<close>: a response with
  status \<open>st\<close> arrived, and \<open>b\<close> is what \<^verbatim>\<open>response.json()\<close> gives, \<open>None\<close> when it
  throws.
\<close>

datatype fetch_result = Rejected | Responded nat "json option"

definition ok :: "nat \<Rightarrow> bool" where
  "ok st = (200 \<le> st \<and> st \<le> 299)"

datatype payload = ErrorBody string | Local AnalysisResult | Remote json

definition fallback :: "env \<Rightarrow> json \<Rightarrow> error + payload" where
  "fallback e data =
     (case generateMockAnalysis e data of Inl err \<Rightarrow> Inl err | Inr r \<Rightarrow> Inr (Local r))"

text \<open>
  \<^verbatim>\<open>return generateMockAnalysis(data)\<close> hands the promise on without awaiting it, so an
  exception of the engine is not caught by the \<^verbatim>\<open>try\<close> around it: it reaches the caller.
\<close>

definition callMLService :: "env \<Rightarrow> json \<Rightarrow> fetch_result \<Rightarrow> error + payload" where
  "callMLService e data res =
     (case res of
        Rejected \<Rightarrow> fallback e data
      | Responded st b \<Rightarrow>
          if \<not> ok st then fallback e data
          else (case b of None \<Rightarrow> fallback e data | Some result \<Rightarrow> Inr (Remote result)))"

record response =
  status :: nat
  content :: payload

text \<open>\<^verbatim>\<open>typeof x === "number"\<close>.\<close>

fun is_number :: "json option \<Rightarrow> bool" where
  "is_number (Some (JNum n)) = True"
| "is_number _ = False"

text \<open>
  The route. The request is what \<^verbatim>\<open>request.json()\<close> parsed, \<open>None\<close> when it throws.
  Any exception inside the handler, also that of reading \<^verbatim>\<open>body.title\<close> of \<^verbatim>\<open>null\<close>,
  ends in the response 500.
\<close>

definition POST :: "env \<Rightarrow> json option \<Rightarrow> fetch_result \<Rightarrow> response" where
  "POST e request res =
     (case request of
        None \<Rightarrow> \<lparr>status = 500, content = ErrorBody ''Internal server error''\<rparr>
      | Some body \<Rightarrow>
          if body = JNull
          then \<lparr>status = 500, content = ErrorBody ''Internal server error''\<rparr>
          else if \<not> truthy (property body ''title'') \<or>
                  \<not> is_number (property body ''price'') \<or>
                  \<not> truthy (property body ''seller'') \<or>
                  property body ''rating'' = None \<or>
                  property body ''review_count'' = None
          then \<lparr>status = 400, content = ErrorBody ''Missing or invalid required fields''\<rparr>
          else (case callMLService e body res of
                  Inl err \<Rightarrow> \<lparr>status = 500, content = ErrorBody ''Internal server error''\<rparr>
                | Inr result \<Rightarrow> \<lparr>status = 200, content = result\<rparr>))"

subsection \<open>The amounts added to the sum\<close>

text \<open>
  One name for what each statement adds to \<^verbatim>\<open>suspiciousness\<close>; a statement whose
  condition fails adds nothing, written as adding zero. Lemma \<open>suspiciousness_sum\<close>
  below shows that the running sum is the sum of these six amounts.
\<close>

definition added_words :: "nat \<Rightarrow> number" where
  "added_words w = n_mul (Num (of_nat w)) (Num 0.15)"

definition added_price :: "number \<Rightarrow> number" where
  "added_price pd = n_min (n_mul pd (Num 0.2)) (Num 0.2)"

definition added_rating :: "bool \<Rightarrow> number" where
  "added_rating ra = (if ra then Num 0.15 else Num 0)"

definition added_zero_reviews :: "bool \<Rightarrow> number" where
  "added_zero_reviews zr = (if zr then Num 0.1 else Num 0)"

definition added_seller :: "bool \<Rightarrow> number" where
  "added_seller gs = (if gs then Num 0.1 else Num 0)"

definition added_images :: "nat \<Rightarrow> number" where
  "added_images ic = (if ic = 0 then Num 0.1 else Num 0)"

subsection \<open>Notions the properties below are stated with\<close>

text \<open>The entries of an explanation in descending order of contribution.\<close>

definition descending :: "entry list \<Rightarrow> bool" where
  "descending xs = sorted_wrt (\<lambda>a b. n_ge (contribution a) (contribution b)) xs"

text \<open>The order in which the engine lists the five features.\<close>

definition declaration_order :: "string list" where
  "declaration_order =
     [''price_deviation_from_median'', ''suspicious_words_in_title'',
      ''perfect_rating_low_reviews'', ''no_images'', ''generic_seller_name'']"

text \<open>
  A required field that is missing or falsy: absent, \<^verbatim>\<open>null\<close>, \<^verbatim>\<open>false\<close>, zero or the
  empty string.
\<close>

definition missing_or_falsy :: "json option \<Rightarrow> bool" where
  "missing_or_falsy x =
     (x = None \<or> x = Some JNull \<or> x = Some (JBool False) \<or> x = Some (JNum 0) \<or>
      x = Some (JStr []))"

text \<open>
  The bodies the route refuses: title or seller missing or falsy, a price that is missing
  or not a number, rating or review count missing.
\<close>

definition refused :: "json \<Rightarrow> bool" where
  "refused body =
     (missing_or_falsy (property body ''title'') \<or>
      (\<forall>n. property body ''price'' \<noteq> Some (JNum n)) \<or>
      missing_or_falsy (property body ''seller'') \<or>
      property body ''rating'' = None \<or>
      property body ''review_count'' = None)"


text \<open>
  A host for the examples; none of the listings evaluated below makes the engine convert
  a string to a number or print a number.
\<close>

definition example_env :: env where
  "example_env =
     \<lparr>StringToNumber = (\<lambda>s. NaN), NumberToString = (\<lambda>n. []),
      now = ''2024-01-01T00:00:00.000Z''\<rparr>"

text \<open>A listing as the form of the analyze page sends it.\<close>

definition listing ::
  "string \<Rightarrow> rat \<Rightarrow> string \<Rightarrow> rat \<Rightarrow> rat \<Rightarrow> string \<Rightarrow> json list \<Rightarrow> json" where
  "listing t p s r c cat imgs =
     JObj [(''title'', JStr t), (''description'', JStr []), (''price'', JNum p),
           (''seller'', JStr s), (''rating'', JNum r), (''review_count'', JNum c),
           (''category'', JStr cat), (''country'', JStr []), (''images'', JArr imgs)]"

section \<open>Properties\<close>

lemmas engine_defs = generateMockAnalysis_def lowered_def toLowerCase_def lower_char_def
  suspiciousness_def wordMatches_def suspiciousWords_def priceDeviation_def medianPrice_def
  range_of_def categoryRanges_def Object_prototype_def operand_def
  ratingAnomaly_def zeroReviews_def genericSeller_def genericNames_def imageCount_def
  label_of_def explanation_of_def Let_def

subsection \<open>What the engine returns\<close>

lemma n_add_zero: "n_add x (Num 0) = x"
  by (cases x) simp_all

text \<open>The running sum is the sum of the six amounts, in the order of the statements.\<close>

lemma suspiciousness_sum:
  "suspiciousness w pd ra zr gs ic =
     n_add (n_add (n_add (n_add (n_add (n_add (Num 0) (added_words w)) (added_price pd))
       (added_rating ra)) (added_zero_reviews zr)) (added_seller gs)) (added_images ic)"
  by (simp add: suspiciousness_def added_words_def added_price_def added_rating_def
      added_zero_reviews_def added_seller_def added_images_def n_add_zero Let_def)

text \<open>A result of the engine is built from the local constants.\<close>

lemma generateMockAnalysis_Inr:
  assumes "generateMockAnalysis e d = Inr r"
  shows "\<exists>t pd ra s.
           lowered (property d ''title'') = Inr t \<and>
           priceDeviation e d = Inr pd \<and>
           ratingAnomaly e d = Inr ra \<and>
           lowered (property d ''seller'') = Inr s \<and>
           r = \<lparr>score = n_min (suspiciousness (wordMatches t) pd ra (zeroReviews d)
                            (genericSeller s) (imageCount d)) (Num 1),
                label = label_of
                  (n_min (suspiciousness (wordMatches t) pd ra (zeroReviews d)
                            (genericSeller s) (imageCount d)) (Num 1)),
                explanation =
                  explanation_of (wordMatches t) pd ra (genericSeller s) (imageCount d),
                model_version = ''v0.1-mock'',
                timestamp = now e\<rparr>"
  using assms
  by (auto simp: generateMockAnalysis_def Let_def split: if_splits sum.splits)



subsection \<open>The category table\<close>

lemma range_of_known:
  assumes "key \<notin> set Object_prototype"
  shows "\<exists>lo hi. range_of key = (Some lo, Some hi) \<and> 0 < lo \<and> lo \<le> hi"
  using assms by (auto simp: range_of_def categoryRanges_def)

lemma range_of_unknown:
  assumes "key \<notin> set (map fst categoryRanges)" and "key \<notin> set Object_prototype"
  shows "range_of key = (Some 1, Some 10000)"
  using assms by (auto simp: range_of_def categoryRanges_def)

lemma medianPrice_positive:
  assumes "key \<notin> set Object_prototype"
  shows "\<exists>m. medianPrice key = Num m \<and> 0 < m"
proof -
  from range_of_known [OF assms] obtain lo hi
    where r: "range_of key = (Some lo, Some hi)" and "0 < lo" and "lo \<le> hi"
    by blast
  then have pos: "0 < (lo + hi) / 2" by simp
  have "medianPrice key = Num ((lo + hi) / 2)"
    by (simp add: medianPrice_def operand_def Let_def r)
  with pos show ?thesis by blast
qed

lemma medianPrice_inherited:
  assumes "key \<in> set Object_prototype"
  shows "medianPrice key = NaN"
proof -
  from assms have "range_of key = (None, None)"
    by (auto simp: range_of_def categoryRanges_def Object_prototype_def)
  then show ?thesis
    by (simp add: medianPrice_def operand_def Let_def)
qed

subsection \<open>Bounds on the amounts\<close>

text \<open>A price deviation is \<open>NaN\<close> or not negative.\<close>

lemma priceDeviation_cases:
  assumes "priceDeviation e d = Inr pd"
  shows "pd = NaN \<or> (\<exists>y. pd = Num y \<and> 0 \<le> y)"
proof -
  from assms obtain key price
    where pd: "pd = n_div (n_abs (n_sub price (medianPrice key))) (medianPrice key)"
    by (auto simp: priceDeviation_def split: sum.splits)
  show ?thesis
  proof (cases "key \<in> set Object_prototype")
    case True
    then show ?thesis by (simp add: pd medianPrice_inherited)
  next
    case False
    from medianPrice_positive [OF False] obtain m where "medianPrice key = Num m" "0 < m"
      by blast
    then show ?thesis by (cases price) (simp_all add: pd)
  qed
qed

lemma priceDeviation_number:
  assumes "priceDeviation e d = Inr pd"
    and "property d ''price'' = Some (JNum p)"
    and "ToPropertyKey e (property d ''category'') = Inr key"
    and "key \<notin> set Object_prototype"
  shows "\<exists>y. pd = Num y \<and> 0 \<le> y"
proof -
  from medianPrice_positive [OF assms(4)] obtain m where "medianPrice key = Num m" "0 < m"
    by blast
  with assms(1) show ?thesis
    by (auto simp: priceDeviation_def assms(2,3))
qed

lemma added_price_bounds:
  assumes "0 \<le> y"
  shows "\<exists>x. added_price (Num y) = Num x \<and> 0 \<le> x \<and> x \<le> 0.2"
  using assms by (simp add: added_price_def min_def)

lemma wordMatches_le: "wordMatches t \<le> 8"
proof -
  have "wordMatches t \<le> length suspiciousWords"
    unfolding wordMatches_def by (rule length_filter_le)
  then show ?thesis by (simp add: suspiciousWords_def)
qed

text \<open>
  The score lies in the unit interval whenever the price is a number and the category
  does not name a property that \<^verbatim>\<open>categoryRanges\<close> inherits.
\<close>

lemma score_in_unit_interval:
  assumes "generateMockAnalysis e d = Inr r"
    and "property d ''price'' = Some (JNum p)"
    and "ToPropertyKey e (property d ''category'') = Inr key"
    and "key \<notin> set Object_prototype"
  shows "\<exists>x. score r = Num x \<and> 0 \<le> x \<and> x \<le> 1"
proof -
  from generateMockAnalysis_Inr [OF assms(1)] obtain t pd ra s
    where pd: "priceDeviation e d = Inr pd"
      and sc: "score r = n_min (suspiciousness (wordMatches t) pd ra (zeroReviews d)
                            (genericSeller s) (imageCount d)) (Num 1)"
    by auto
  from priceDeviation_number [OF pd assms(2,3,4)] obtain y where y: "pd = Num y" "0 \<le> y"
    by blast
  from added_price_bounds [OF y(2)] obtain x where x: "added_price pd = Num x" "0 \<le> x"
    using y(1) by blast
  have "\<exists>z. suspiciousness (wordMatches t) pd ra (zeroReviews d)
               (genericSeller s) (imageCount d) = Num z \<and> 0 \<le> z"
    unfolding suspiciousness_sum
    by (simp add: x added_words_def added_rating_def added_zero_reviews_def
        added_seller_def added_images_def)
  then obtain z where "suspiciousness (wordMatches t) pd ra (zeroReviews d)
               (genericSeller s) (imageCount d) = Num z" "0 \<le> z" by blast
  with sc show ?thesis by (simp add: min_def)
qed

text \<open>The sum before clamping can exceed one: all eight words give 1.2.\<close>

lemma raw_sum_may_exceed_one:
  "suspiciousness (wordMatches ''free wow amazing limited urgent exclusive fake replica'')
     (Num 0) False False False 1 = Num 1.2"
  by (simp add: suspiciousness_def wordMatches_def suspiciousWords_def)

subsection \<open>Examples\<close>

lemma example_bargain:
  "generateMockAnalysis e
     (listing ''Free gift card'' 1375 ''Ann'' 4 12 ''electronics'' [JStr ''a.jpg'']) =
     Inr \<lparr>score = Num 0.2, label = safe,
          explanation =
            [\<lparr>feature = ''price_deviation_from_median'', contribution = Num 0.05\<rparr>,
             \<lparr>feature = ''suspicious_words_in_title'', contribution = Num 0.15\<rparr>],
          model_version = ''v0.1-mock'', timestamp = now e\<rparr>"
  by (simp add: engine_defs listing_def)

subsection \<open>Label and score\<close>

text \<open>
  C1. Whatever listing the engine analyzes, the label of the result is a function of its
  score alone, by the fixed thresholds: safe below 0.4, suspicious from 0.4 and below
  0.7, high risk from 0.7.
\<close>

theorem label_from_score_thresholds:
  assumes "generateMockAnalysis e d = Inr r"
  shows "label r = label_of (score r) \<and>
         (n_lt (score r) (Num 0.4) \<longrightarrow> label r = safe) \<and>
         (n_ge (score r) (Num 0.4) \<and> n_lt (score r) (Num 0.7) \<longrightarrow> label r = suspicious) \<and>
         (n_ge (score r) (Num 0.7) \<longrightarrow> label r = high_risk)"
proof -
  from generateMockAnalysis_Inr [OF assms] have lab: "label r = label_of (score r)"
    by auto
  show ?thesis
  proof (cases "score r")
    case (Num x)
    with lab show ?thesis by (auto simp: label_of_def)
  next
    case NaN
    with lab show ?thesis by (simp add: label_of_def)
  qed
qed

theorem label_from_score_thresholds_witness:
  "generateMockAnalysis example_env
     (listing ''Free gift card'' 1375 ''Ann'' 4 12 ''electronics'' [JStr ''a.jpg'']) =
     Inr \<lparr>score = Num 0.2, label = safe,
          explanation =
            [\<lparr>feature = ''price_deviation_from_median'', contribution = Num 0.05\<rparr>,
             \<lparr>feature = ''suspicious_words_in_title'', contribution = Num 0.15\<rparr>],
          model_version = ''v0.1-mock'', timestamp = now example_env\<rparr> \<and>
   n_lt (Num 0.2) (Num 0.4) \<and> safe = label_of (Num 0.2)"
  using label_from_score_thresholds [OF example_bargain [of example_env]]
  by (simp add: example_bargain)

text \<open>
  C2. The score of an accepted listing is meant to lie between 0 and 1. It does not when
  the category names a property that the table inherits, such as \<^verbatim>\<open>constructor\<close>: the
  table lookup then yields a function, the median is \<open>NaN\<close>, and so is the score.
\<close>

theorem score_nan_for_inherited_category:
  "generateMockAnalysis e
     (listing ''Desk lamp'' 40 ''Ann'' 4 12 ''constructor'' [JStr ''a.jpg'']) =
     Inr \<lparr>score = NaN, label = high_risk, explanation = [],
          model_version = ''v0.1-mock'', timestamp = now e\<rparr>"
  by (simp add: engine_defs listing_def)

text \<open>The route accepts that listing and answers 200 with that result.\<close>

lemma inherited_category_is_accepted:
  "POST e (Some (listing ''Desk lamp'' 40 ''Ann'' 4 12 ''constructor'' [JStr ''a.jpg'']))
     Rejected =
     \<lparr>status = 200,
      content = Local \<lparr>score = NaN, label = high_risk, explanation = [],
                       model_version = ''v0.1-mock'', timestamp = now e\<rparr>\<rparr>"
  apply (simp add: POST_def callMLService_def fallback_def)
  apply (simp add: engine_defs listing_def)
  done

subsection \<open>The explanation\<close>

lemma explanation_of_features:
  "subseq (map feature (explanation_of w pd ra gs ic)) declaration_order"
proof -
  have "subseq (map feature (explanation_of w pd ra gs ic))
          (map feature
            [\<lparr>feature = ''price_deviation_from_median'',
              contribution = n_min (n_mul pd (Num 0.2)) (Num 1)\<rparr>,
             \<lparr>feature = ''suspicious_words_in_title'',
              contribution = n_min (n_mul (Num (of_nat w)) (Num 0.15)) (Num 1)\<rparr>,
             \<lparr>feature = ''perfect_rating_low_reviews'',
              contribution = (if ra then Num 0.15 else Num 0)\<rparr>,
             \<lparr>feature = ''no_images'',
              contribution = (if ic = 0 then Num 0.1 else Num 0)\<rparr>,
             \<lparr>feature = ''generic_seller_name'',
              contribution = (if gs then Num 0.1 else Num 0)\<rparr>])"
    unfolding explanation_of_def by (intro subseq_map subseq_filter_left)
  then show ?thesis by (simp add: declaration_order_def)
qed

lemma explanation_of_positive:
  "list_all (\<lambda>x. n_gt (contribution x) (Num 0)) (explanation_of w pd ra gs ic)"
  unfolding explanation_of_def list_all_iff by simp

text \<open>
  C3, as amended. The entries of the explanation are not sorted by contribution: they
  stand in the order in which the engine lists its five features, each present only
  with a contribution above zero. The order is fixed, so it is the same on every call.
\<close>

theorem explanation_in_declaration_order:
  assumes "generateMockAnalysis e d = Inr r"
  shows "subseq (map feature (explanation r)) declaration_order \<and>
         list_all (\<lambda>x. n_gt (contribution x) (Num 0)) (explanation r)"
proof -
  from generateMockAnalysis_Inr [OF assms] obtain w pd ra gs ic
    where "explanation r = explanation_of w pd ra gs ic"
    by auto
  then show ?thesis
    by (simp add: explanation_of_features explanation_of_positive)
qed

theorem explanation_in_declaration_order_witness:
  "generateMockAnalysis example_env
     (listing ''Free gift card'' 1375 ''Ann'' 4 12 ''electronics'' [JStr ''a.jpg'']) =
     Inr \<lparr>score = Num 0.2, label = safe,
          explanation =
            [\<lparr>feature = ''price_deviation_from_median'', contribution = Num 0.05\<rparr>,
             \<lparr>feature = ''suspicious_words_in_title'', contribution = Num 0.15\<rparr>],
          model_version = ''v0.1-mock'', timestamp = now example_env\<rparr> \<and>
   subseq [''price_deviation_from_median'', ''suspicious_words_in_title''] declaration_order \<and>
   n_gt (Num 0.05) (Num 0) \<and> n_gt (Num 0.15) (Num 0)"
  using explanation_in_declaration_order [OF example_bargain [of example_env]]
  by (simp add: example_bargain)

text \<open>
  C3, as stated, fails: a price 25 percent off the median contributes 0.05 and comes
  first, one suspicious word contributes 0.15 and comes second.
\<close>

theorem explanation_not_descending:
  "(case generateMockAnalysis example_env
      (listing ''Free gift card'' 1375 ''Ann'' 4 12 ''electronics'' [JStr ''a.jpg'']) of
      Inl err \<Rightarrow> False
    | Inr r \<Rightarrow> \<not> descending (explanation r))"
  by (simp add: example_bargain descending_def)

text \<open>
  C4. A perfect rating with no review adds 0.15 and 0.1 to the sum, 0.25 together. The
  explanation names the first amount only: no entry stands for the 0.1 of the absent
  reviews.
\<close>

theorem zero_reviews_added_but_not_reported:
  "ratingAnomaly e (listing ''Desk lamp'' 1100 ''Ann'' 5 0 ''electronics'' [JStr ''a.jpg'']) =
     Inr True \<and>
   zeroReviews (listing ''Desk lamp'' 1100 ''Ann'' 5 0 ''electronics'' [JStr ''a.jpg'']) \<and>
   generateMockAnalysis e
     (listing ''Desk lamp'' 1100 ''Ann'' 5 0 ''electronics'' [JStr ''a.jpg'']) =
     Inr \<lparr>score = Num 0.25, label = safe,
          explanation =
            [\<lparr>feature = ''perfect_rating_low_reviews'', contribution = Num 0.15\<rparr>],
          model_version = ''v0.1-mock'', timestamp = now e\<rparr>"
  by (simp add: engine_defs listing_def)

text \<open>
  C5, as amended. The default listing (empty text fields, price 0, rating 0, no review,
  no image) in a category that the table neither holds nor inherits is priced 100 percent
  off the default median 5000.5, which adds the full 0.2; with 0.1 for the absent reviews and 0.1 for the
  absent images the score is 0.4 and the label suspicious. The explanation lists the
  price deviation and the absent images.
\<close>

theorem default_listing_is_suspicious:
  assumes "c \<notin> set (map fst categoryRanges)" and "c \<notin> set Object_prototype"
  shows "generateMockAnalysis e (listing [] 0 [] 0 0 c []) =
     Inr \<lparr>score = Num 0.4, label = suspicious,
          explanation =
            [\<lparr>feature = ''price_deviation_from_median'', contribution = Num 0.2\<rparr>,
             \<lparr>feature = ''no_images'', contribution = Num 0.1\<rparr>],
          model_version = ''v0.1-mock'', timestamp = now e\<rparr>"
proof -
  have m: "medianPrice c = Num 5000.5"
    by (simp add: medianPrice_def range_of_unknown [OF assms] operand_def)
  have p: "priceDeviation e (listing [] 0 [] 0 0 c []) = Inr (Num 1)"
    unfolding priceDeviation_def by (simp add: listing_def m)
  show ?thesis
    unfolding generateMockAnalysis_def p
    by (simp add: listing_def lowered_def toLowerCase_def wordMatches_def suspiciousWords_def
        ratingAnomaly_def zeroReviews_def genericSeller_def genericNames_def imageCount_def
        label_of_def suspiciousness_def explanation_of_def)
qed

theorem default_listing_is_suspicious_witness:
  "''gadgets'' \<notin> set (map fst categoryRanges) \<and> ''gadgets'' \<notin> set Object_prototype \<and>
   generateMockAnalysis example_env (listing [] 0 [] 0 0 ''gadgets'' []) =
     Inr \<lparr>score = Num 0.4, label = suspicious,
          explanation =
            [\<lparr>feature = ''price_deviation_from_median'', contribution = Num 0.2\<rparr>,
             \<lparr>feature = ''no_images'', contribution = Num 0.1\<rparr>],
          model_version = ''v0.1-mock'', timestamp = now example_env\<rparr>"
proof -
  have a: "''gadgets'' \<notin> set (map fst categoryRanges)"
    by (simp add: categoryRanges_def)
  have b: "''gadgets'' \<notin> set Object_prototype"
    by (simp add: Object_prototype_def)
  show ?thesis
    using a b default_listing_is_suspicious [OF a b, of example_env] by simp
qed

text \<open>
  C5, as stated, fails: for the default listing with the empty category the price
  deviation is 1, the score 0.4 and not about 0.2, the label suspicious and not safe.
\<close>

theorem default_listing_not_safe:
  "priceDeviation example_env (listing [] 0 [] 0 0 [] []) = Inr (Num 1) \<and>
   (case generateMockAnalysis example_env (listing [] 0 [] 0 0 [] []) of
      Inl err \<Rightarrow> False
    | Inr r \<Rightarrow> score r = Num 0.4 \<and> label r = suspicious \<and>
        map feature (explanation r) = [''price_deviation_from_median'', ''no_images''])"
  by (simp add: engine_defs listing_def)

text \<open>
  C6. A price far from the median adds 0.2 to the sum, the cap of that statement, but
  the explanation caps the same product at 1: its entry reads 1 where 0.2 was added, and
  exceeds the whole score 0.3.
\<close>

theorem price_entry_differs_from_amount_added:
  "priceDeviation e
     (listing ''Generic Widget'' 50000 ''Shop'' 4 100 ''clothing'' [JStr ''a'', JStr ''b'']) =
     Inr (Num (9979 / 21)) \<and>
   added_price (Num (9979 / 21)) = Num 0.2 \<and>
   generateMockAnalysis e
     (listing ''Generic Widget'' 50000 ''Shop'' 4 100 ''clothing'' [JStr ''a'', JStr ''b'']) =
     Inr \<lparr>score = Num 0.3, label = safe,
          explanation =
            [\<lparr>feature = ''price_deviation_from_median'', contribution = Num 1\<rparr>,
             \<lparr>feature = ''generic_seller_name'', contribution = Num 0.1\<rparr>],
          model_version = ''v0.1-mock'', timestamp = now e\<rparr>"
  by (simp add: engine_defs listing_def added_price_def)

text \<open>
  C7, as amended. No amount is negative. The price amount is at most 0.2 and the rating,
  zero-review, seller and image amounts are 0.15, 0.1, 0.1 and 0.1 when they fire. The
  word amount has no cap of its own: it is 0.15 for each of the at most eight
  vocabulary words found, so at most 1.2. The price amount is \<open>NaN\<close> instead when the
  median is, which a numeric price in a category that names no inherited property
  excludes.
\<close>

theorem contributions_bounded:
  assumes "priceDeviation e d = Inr pd"
  shows "(\<exists>k. added_words (wordMatches t) = Num (of_nat k * 0.15) \<and> k \<le> 8) \<and>
   (added_price pd = NaN \<or> (\<exists>x. added_price pd = Num x \<and> 0 \<le> x \<and> x \<le> 0.2)) \<and>
   (property d ''price'' = Some (JNum p) \<and>
    ToPropertyKey e (property d ''category'') = Inr key \<and>
    key \<notin> set Object_prototype \<longrightarrow>
      (\<exists>x. added_price pd = Num x \<and> 0 \<le> x \<and> x \<le> 0.2)) \<and>
   (added_rating ra = Num 0 \<or> added_rating ra = Num 0.15) \<and>
   (added_zero_reviews zr = Num 0 \<or> added_zero_reviews zr = Num 0.1) \<and>
   (added_seller gs = Num 0 \<or> added_seller gs = Num 0.1) \<and>
   (added_images ic = Num 0 \<or> added_images ic = Num 0.1)"
proof -
  have w: "\<exists>k. added_words (wordMatches t) = Num (of_nat k * 0.15) \<and> k \<le> 8"
    unfolding added_words_def using wordMatches_le [of t] by auto
  have p1: "added_price pd = NaN \<or> (\<exists>x. added_price pd = Num x \<and> 0 \<le> x \<and> x \<le> 0.2)"
    using priceDeviation_cases [OF assms] added_price_bounds
    by (auto simp: added_price_def)
  have p2: "property d ''price'' = Some (JNum p) \<and>
      ToPropertyKey e (property d ''category'') = Inr key \<and>
      key \<notin> set Object_prototype \<longrightarrow>
      (\<exists>x. added_price pd = Num x \<and> 0 \<le> x \<and> x \<le> 0.2)"
  proof (intro impI, elim conjE)
    assume a: "property d ''price'' = Some (JNum p)"
      and b: "ToPropertyKey e (property d ''category'') = Inr key"
      and c: "key \<notin> set Object_prototype"
    from priceDeviation_number [OF assms a b c] obtain y where y: "pd = Num y" "0 \<le> y"
      by blast
    from added_price_bounds [OF y(2)] show "\<exists>x. added_price pd = Num x \<and> 0 \<le> x \<and> x \<le> 0.2"
      unfolding y(1) .
  qed
  have r: "added_rating ra = Num 0 \<or> added_rating ra = Num 0.15"
    by (simp add: added_rating_def)
  have z: "added_zero_reviews zr = Num 0 \<or> added_zero_reviews zr = Num 0.1"
    by (simp add: added_zero_reviews_def)
  have g: "added_seller gs = Num 0 \<or> added_seller gs = Num 0.1"
    by (simp add: added_seller_def)
  have i: "added_images ic = Num 0 \<or> added_images ic = Num 0.1"
    by (simp add: added_images_def)
  from w p1 p2 r z g i show ?thesis by blast
qed

theorem contributions_bounded_witness:
  "priceDeviation example_env
     (listing ''Free gift card'' 1375 ''Ann'' 4 12 ''electronics'' [JStr ''a.jpg'']) =
     Inr (Num 0.25) \<and>
   property (listing ''Free gift card'' 1375 ''Ann'' 4 12 ''electronics'' [JStr ''a.jpg''])
     ''price'' = Some (JNum 1375) \<and>
   ToPropertyKey example_env
     (property (listing ''Free gift card'' 1375 ''Ann'' 4 12 ''electronics'' [JStr ''a.jpg''])
        ''category'') = Inr ''electronics'' \<and>
   ''electronics'' \<notin> set Object_prototype \<and>
   added_price (Num 0.25) = Num 0.05 \<and>
   added_words (wordMatches ''free gift card'') = Num 0.15"
proof -
  let ?d = "listing ''Free gift card'' 1375 ''Ann'' 4 12 ''electronics'' [JStr ''a.jpg'']"
  have pd: "priceDeviation example_env ?d = Inr (Num 0.25)"
    by (simp add: engine_defs listing_def)
  have h: "property ?d ''price'' = Some (JNum 1375) \<and>
      ToPropertyKey example_env (property ?d ''category'') = Inr ''electronics'' \<and>
      ''electronics'' \<notin> set Object_prototype"
    by (simp add: listing_def Object_prototype_def)
  from contributions_bounded [OF pd, where t = "''free gift card''" and p = 1375
      and key = "''electronics''"] h
  have "\<exists>x. added_price (Num 0.25) = Num x \<and> 0 \<le> x \<and> x \<le> 0.2"
    by blast
  then have "added_price (Num 0.25) = Num 0.05"
    by (simp add: added_price_def)
  moreover have "added_words (wordMatches ''free gift card'') = Num 0.15"
    by (simp add: added_words_def wordMatches_def suspiciousWords_def)
  ultimately show ?thesis using pd h by blast
qed

text \<open>
  C7, as stated, fails: three vocabulary words in a title add 0.45, above every ceiling
  between 0.1 and 0.2.
\<close>

theorem word_contribution_exceeds_ceiling:
  "added_words (wordMatches (toLowerCase ''FREE replica - wow!'')) = Num 0.45 \<and>
   n_gt (Num 0.45) (Num 0.2)"
  by (simp add: added_words_def wordMatches_def suspiciousWords_def toLowerCase_def
      lower_char_def)

subsection \<open>The route\<close>

lemma not_truthy_iff:
  "\<not> truthy x \<longleftrightarrow> missing_or_falsy x"
  unfolding missing_or_falsy_def by (cases x rule: truthy.cases) auto

lemma is_number_iff: "is_number x \<longleftrightarrow> (\<exists>n. x = Some (JNum n))"
  by (cases x rule: is_number.cases) auto

text \<open>The condition of the route's \<^verbatim>\<open>if\<close> holds of the refused bodies and of no other.\<close>

lemma refused_iff:
  "refused body \<longleftrightarrow>
     (\<not> truthy (property body ''title'') \<or>
      \<not> is_number (property body ''price'') \<or>
      \<not> truthy (property body ''seller'') \<or>
      property body ''rating'' = None \<or>
      property body ''review_count'' = None)"
  unfolding refused_def not_truthy_iff is_number_iff by simp


lemma POST_not_refused:
  assumes "body \<noteq> JNull" and "\<not> refused body"
  shows "POST e (Some body) res =
           (case callMLService e body res of
              Inl err \<Rightarrow> \<lparr>status = 500, content = ErrorBody ''Internal server error''\<rparr>
            | Inr result \<Rightarrow> \<lparr>status = 200, content = result\<rparr>)"
  unfolding POST_def refused_iff [symmetric] using assms by simp

text \<open>A body that cannot be parsed, and the body \<^verbatim>\<open>null\<close>, end in the response 500.\<close>

lemma POST_unreadable:
  "POST e None res = \<lparr>status = 500, content = ErrorBody ''Internal server error''\<rparr>"
  "POST e (Some JNull) res = \<lparr>status = 500, content = ErrorBody ''Internal server error''\<rparr>"
  by (simp_all add: POST_def)





text \<open>A 2xx response that parses is passed on as it is, whatever it holds.\<close>

lemma POST_remote:
  assumes "\<not> refused body" and "ok st"
  shows "POST e (Some body) (Responded st (Some j)) = \<lparr>status = 200, content = Remote j\<rparr>"
proof -
  have nn: "body \<noteq> JNull"
    using assms(1) by (auto simp: refused_def missing_or_falsy_def)
  show ?thesis
    using POST_not_refused [OF nn assms(1), of e "Responded st (Some j)"] assms(2)
    by (simp add: callMLService_def)
qed







text \<open>
  C10. An \<^verbatim>\<open>images\<close> field that is present but no array counts as no image. The image
  count is 0. The score of every result is the clamped sum of what the other five
  statements add (the running sum as it is for a listing with an image) and the 0.1
  of the statement for absent images. The explanation holds the entry \<^verbatim>\<open>no_images\<close>
  with 0.1. And the result is the one of any listing that differs only in having no
  \<^verbatim>\<open>images\<close> or an empty list there.
\<close>

theorem non_array_images_count_as_none:
  assumes "property d ''images'' = Some v" and "\<forall>xs. v \<noteq> JArr xs"
  shows "imageCount d = 0 \<and>
         (\<forall>r. generateMockAnalysis e d = Inr r \<longrightarrow>
            (\<exists>t pd ra s.
               lowered (property d ''title'') = Inr t \<and>
               priceDeviation e d = Inr pd \<and>
               ratingAnomaly e d = Inr ra \<and>
               lowered (property d ''seller'') = Inr s \<and>
               score r =
                 n_min (n_add (suspiciousness (wordMatches t) pd ra (zeroReviews d)
                                 (genericSeller s) 1) (Num 0.1)) (Num 1)) \<and>
            label r = label_of (score r) \<and>
            \<lparr>feature = ''no_images'', contribution = Num 0.1\<rparr> \<in> set (explanation r)) \<and>
         (\<forall>d'. d' \<noteq> JNull \<and>
            (property d' ''images'' = None \<or> property d' ''images'' = Some (JArr [])) \<and>
            (\<forall>k. k \<noteq> ''images'' \<longrightarrow> property d' k = property d k) \<longrightarrow>
            generateMockAnalysis e d' = generateMockAnalysis e d)"
proof -
  have ic: "imageCount d = 0"
    using assms by (cases v) (simp_all add: imageCount_def)
  have step: "suspiciousness w pd ra zr gs 0 =
      n_add (suspiciousness w pd ra zr gs 1) (Num 0.1)" for w pd ra zr gs
    by (simp add: suspiciousness_def Let_def)
  have res: "(\<exists>t pd ra s.
               lowered (property d ''title'') = Inr t \<and>
               priceDeviation e d = Inr pd \<and>
               ratingAnomaly e d = Inr ra \<and>
               lowered (property d ''seller'') = Inr s \<and>
               score r =
                 n_min (n_add (suspiciousness (wordMatches t) pd ra (zeroReviews d)
                                 (genericSeller s) 1) (Num 0.1)) (Num 1)) \<and>
            label r = label_of (score r) \<and>
            \<lparr>feature = ''no_images'', contribution = Num 0.1\<rparr> \<in> set (explanation r)"
    if "generateMockAnalysis e d = Inr r" for r
  proof -
    from generateMockAnalysis_Inr [OF that] obtain t pd ra s
      where t: "lowered (property d ''title'') = Inr t"
        and pd: "priceDeviation e d = Inr pd"
        and ra: "ratingAnomaly e d = Inr ra"
        and s: "lowered (property d ''seller'') = Inr s"
        and r: "r = \<lparr>score = n_min (suspiciousness (wordMatches t) pd ra (zeroReviews d)
                            (genericSeller s) (imageCount d)) (Num 1),
                label = label_of
                  (n_min (suspiciousness (wordMatches t) pd ra (zeroReviews d)
                            (genericSeller s) (imageCount d)) (Num 1)),
                explanation =
                  explanation_of (wordMatches t) pd ra (genericSeller s) (imageCount d),
                model_version = ''v0.1-mock'',
                timestamp = now e\<rparr>"
      by blast
    have sc: "score r =
        n_min (n_add (suspiciousness (wordMatches t) pd ra (zeroReviews d)
                        (genericSeller s) 1) (Num 0.1)) (Num 1)"
      by (simp add: r ic step)
    have lab: "label r = label_of (score r)"
      by (simp add: r)
    have ex: "\<lparr>feature = ''no_images'', contribution = Num 0.1\<rparr> \<in> set (explanation r)"
      by (simp add: r ic explanation_of_def)
    from t pd ra s sc lab ex show ?thesis by blast
  qed
  have eq: "generateMockAnalysis e d' = generateMockAnalysis e d"
    if nn: "d' \<noteq> JNull"
      and im: "property d' ''images'' = None \<or> property d' ''images'' = Some (JArr [])"
      and same: "\<forall>k. k \<noteq> ''images'' \<longrightarrow> property d' k = property d k" for d'
  proof -
    have dn: "d \<noteq> JNull" using assms(1) by auto
    have ic': "imageCount d' = imageCount d" using im ic by (auto simp: imageCount_def)
    have p: "property d' ''title'' = property d ''title''"
      "property d' ''seller'' = property d ''seller''"
      "property d' ''category'' = property d ''category''"
      "property d' ''price'' = property d ''price''"
      "property d' ''rating'' = property d ''rating''"
      "property d' ''review_count'' = property d ''review_count''"
      using same by simp_all
    have pd: "priceDeviation e d' = priceDeviation e d"
      unfolding priceDeviation_def p ..
    have ra: "ratingAnomaly e d' = ratingAnomaly e d"
      unfolding ratingAnomaly_def p ..
    have zr: "zeroReviews d' = zeroReviews d"
      unfolding zeroReviews_def p ..
    show ?thesis
      unfolding generateMockAnalysis_def p pd ra zr ic' using nn dn by simp
  qed
  from ic res eq show ?thesis by blast
qed

theorem non_array_images_count_as_none_witness:
  "property (JObj [(''images'', JStr ''a.jpg''), (''title'', JStr ''Free lamp''),
       (''price'', JNum 1100), (''seller'', JStr ''Ann''), (''rating'', JNum 4),
       (''review_count'', JNum 12), (''category'', JStr ''electronics'')]) ''images''
     = Some (JStr ''a.jpg'') \<and>
   (\<forall>xs. JStr ''a.jpg'' \<noteq> JArr xs) \<and>
   generateMockAnalysis example_env
     (JObj [(''images'', JStr ''a.jpg''), (''title'', JStr ''Free lamp''),
       (''price'', JNum 1100), (''seller'', JStr ''Ann''), (''rating'', JNum 4),
       (''review_count'', JNum 12), (''category'', JStr ''electronics'')]) =
     Inr \<lparr>score = Num 0.25, label = safe,
          explanation =
            [\<lparr>feature = ''suspicious_words_in_title'', contribution = Num 0.15\<rparr>,
             \<lparr>feature = ''no_images'', contribution = Num 0.1\<rparr>],
          model_version = ''v0.1-mock'', timestamp = now example_env\<rparr> \<and>
   Num 0.25 =
     n_min (n_add (suspiciousness (wordMatches ''free lamp'') (Num 0) False False
                     (genericSeller ''ann'') 1) (Num 0.1)) (Num 1) \<and>
   generateMockAnalysis example_env
     (JObj [(''images'', JArr []), (''title'', JStr ''Free lamp''),
       (''price'', JNum 1100), (''seller'', JStr ''Ann''), (''rating'', JNum 4),
       (''review_count'', JNum 12), (''category'', JStr ''electronics'')]) =
   generateMockAnalysis example_env
     (JObj [(''images'', JStr ''a.jpg''), (''title'', JStr ''Free lamp''),
       (''price'', JNum 1100), (''seller'', JStr ''Ann''), (''rating'', JNum 4),
       (''review_count'', JNum 12), (''category'', JStr ''electronics'')])"
proof -
  let ?d = "JObj [(''images'', JStr ''a.jpg''), (''title'', JStr ''Free lamp''),
       (''price'', JNum 1100), (''seller'', JStr ''Ann''), (''rating'', JNum 4),
       (''review_count'', JNum 12), (''category'', JStr ''electronics'')]"
  let ?d' = "JObj [(''images'', JArr []), (''title'', JStr ''Free lamp''),
       (''price'', JNum 1100), (''seller'', JStr ''Ann''), (''rating'', JNum 4),
       (''review_count'', JNum 12), (''category'', JStr ''electronics'')]"
  let ?r = "\<lparr>score = Num 0.25, label = safe,
          explanation =
            [\<lparr>feature = ''suspicious_words_in_title'', contribution = Num 0.15\<rparr>,
             \<lparr>feature = ''no_images'', contribution = Num 0.1\<rparr>],
          model_version = ''v0.1-mock'', timestamp = now example_env\<rparr>"
  have h1: "property ?d ''images'' = Some (JStr ''a.jpg'')" by simp
  have h2: "\<forall>xs. JStr ''a.jpg'' \<noteq> JArr xs" by simp
  have v: "generateMockAnalysis example_env ?d = Inr ?r"
    by (simp add: engine_defs)
  have t: "lowered (property ?d ''title'') = Inr ''free lamp''"
    by (simp add: lowered_def toLowerCase_def lower_char_def)
  have s: "lowered (property ?d ''seller'') = Inr ''ann''"
    by (simp add: lowered_def toLowerCase_def lower_char_def)
  have pd: "priceDeviation example_env ?d = Inr (Num 0)"
    by (simp add: engine_defs)
  have ra: "ratingAnomaly example_env ?d = Inr False"
    by (simp add: engine_defs)
  have zr: "zeroReviews ?d = False"
    by (simp add: zeroReviews_def)
  have h3: "?d' \<noteq> JNull \<and>
      (property ?d' ''images'' = None \<or> property ?d' ''images'' = Some (JArr [])) \<and>
      (\<forall>k. k \<noteq> ''images'' \<longrightarrow> property ?d' k = property ?d k)"
    by simp
  note inst = non_array_images_count_as_none [OF h1 h2, of example_env]
  note of_result = inst [THEN conjunct2, THEN conjunct1, THEN spec, THEN mp, OF v]
  from of_result [THEN conjunct1] obtain t' pd' ra' s'
    where "lowered (property ?d ''title'') = Inr t'"
      and "priceDeviation example_env ?d = Inr pd'"
      and "ratingAnomaly example_env ?d = Inr ra'"
      and "lowered (property ?d ''seller'') = Inr s'"
      and sc': "score ?r =
        n_min (n_add (suspiciousness (wordMatches t') pd' ra' (zeroReviews ?d)
                        (genericSeller s') 1) (Num 0.1)) (Num 1)"
    by blast
  with t s pd ra have "t' = ''free lamp''" "s' = ''ann''" "pd' = Num 0" "ra' = False"
    by simp_all
  with sc' zr have sc: "Num 0.25 =
      n_min (n_add (suspiciousness (wordMatches ''free lamp'') (Num 0) False False
                      (genericSeller ''ann'') 1) (Num 0.1)) (Num 1)"
    by simp
  have "generateMockAnalysis example_env ?d' = generateMockAnalysis example_env ?d"
    by (rule inst [THEN conjunct2, THEN conjunct2, THEN spec, THEN mp, OF h3])
  with h1 h2 v sc show ?thesis by (intro conjI)
qed


end
